theory Spec2Isabelle
  imports Main "HOL-Library.Sublist"
begin

section \<open>Values of the program\<close>

text \<open>
  A thrown value is either an \<open>Error\<close> instance with its message, or some other value
  (the handlers test \<open>error instanceof Error\<close>).  Strings are lists of characters, one
  \<open>char\<close> per code unit.
\<close>

datatype js_error = Error (message: string) | NonError

text \<open>The interfaces \<open>ClientInformationFull\<close> and \<open>Tokens\<close> of the source.\<close>

record ClientInformationFull =
  client_id :: string
  redirect_uris :: "string list"
  client_secret :: string
  other_keys :: "(string \<times> string) list"

record Tokens =
  access_token :: string
  token_type :: string
  expires_in :: "int option"
  refresh_token :: "string option"
  scope :: "string option"

section \<open>The class \<open>SimpleOAuthProvider\<close>\<close>

text \<open>
  The three optional private fields are absent (\<open>None\<close>) after construction; the base
  URL is fixed by the constructor.
\<close>

record SimpleOAuthProvider =
  clientInfo :: "ClientInformationFull option"
  oauthTokens :: "Tokens option"
  verifier :: "string option"
  baseUrl :: string

definition new_SimpleOAuthProvider :: "string \<Rightarrow> SimpleOAuthProvider" where
  "new_SimpleOAuthProvider b =
     \<lparr>clientInfo = None, oauthTokens = None, verifier = None, baseUrl = b\<rparr>"

definition redirectUrl :: "SimpleOAuthProvider \<Rightarrow> string" where
  "redirectUrl p = baseUrl p @ ''/oauth/callback''"

text \<open>
  Every method takes the provider and returns what the method returns or throws, paired
  with the provider as the method leaves it.  Logging to the console is not modelled.
\<close>

definition clientInformation ::
  "SimpleOAuthProvider \<Rightarrow> ClientInformationFull option \<times> SimpleOAuthProvider" where
  "clientInformation p = (clientInfo p, p)"

definition saveClientInformation ::
  "SimpleOAuthProvider \<Rightarrow> ClientInformationFull \<Rightarrow> unit \<times> SimpleOAuthProvider" where
  "saveClientInformation p ci = ((), p\<lparr>clientInfo := Some ci\<rparr>)"

definition tokens :: "SimpleOAuthProvider \<Rightarrow> Tokens option \<times> SimpleOAuthProvider" where
  "tokens p = (oauthTokens p, p)"

definition saveTokens :: "SimpleOAuthProvider \<Rightarrow> Tokens \<Rightarrow> unit \<times> SimpleOAuthProvider" where
  "saveTokens p t = ((), p\<lparr>oauthTokens := Some t\<rparr>)"

text \<open>
  \<open>redirectToAuthorization\<close> receives a \<open>URL\<close>; the model takes the string that
  \<open>authorizationUrl.toString()\<close> yields.  Its body is a single \<open>throw\<close>.
\<close>

definition redirectToAuthorization ::
  "SimpleOAuthProvider \<Rightarrow> string \<Rightarrow> (js_error + unit) \<times> SimpleOAuthProvider" where
  "redirectToAuthorization p authorizationUrl =
     (Inl (Error (''Redirect to: '' @ authorizationUrl)), p)"

definition saveCodeVerifier :: "SimpleOAuthProvider \<Rightarrow> string \<Rightarrow> unit \<times> SimpleOAuthProvider" where
  "saveCodeVerifier p v = ((), p\<lparr>verifier := Some v\<rparr>)"

text \<open>
  The test \<open>!this.verifier\<close> holds for \<open>undefined\<close> and for the empty string, the
  two falsy values a field of type \<open>string | undefined\<close> can have.
\<close>

definition falsy :: "string option \<Rightarrow> bool" where
  "falsy v = (case v of None \<Rightarrow> True | Some s \<Rightarrow> s = [])"

definition codeVerifier :: "SimpleOAuthProvider \<Rightarrow> (js_error + string) \<times> SimpleOAuthProvider" where
  "codeVerifier p =
     (if falsy (verifier p) then (Inl (Error ''No code verifier found''), p)
      else (Inr (the (verifier p)), p))"

subsection \<open>Sequences of calls on one provider\<close>

text \<open>
  A caller (the SDK's transport) invokes the methods one after the other on the same
  object.  A call that throws leaves the object as it is, and later calls still see it.
\<close>

datatype call =
    ClientInformation
  | SaveClientInformation ClientInformationFull
  | GetTokens
  | SaveTokens Tokens
  | RedirectToAuthorization string
  | SaveCodeVerifier string
  | CodeVerifier

fun invoke :: "SimpleOAuthProvider \<Rightarrow> call \<Rightarrow> SimpleOAuthProvider" where
  "invoke p ClientInformation = snd (clientInformation p)"
| "invoke p (SaveClientInformation ci) = snd (saveClientInformation p ci)"
| "invoke p GetTokens = snd (tokens p)"
| "invoke p (SaveTokens t) = snd (saveTokens p t)"
| "invoke p (RedirectToAuthorization u) = snd (redirectToAuthorization p u)"
| "invoke p (SaveCodeVerifier v) = snd (saveCodeVerifier p v)"
| "invoke p CodeVerifier = snd (codeVerifier p)"

fun run_calls :: "SimpleOAuthProvider \<Rightarrow> call list \<Rightarrow> SimpleOAuthProvider" where
  "run_calls p [] = p"
| "run_calls p (c # cs) = run_calls (invoke p c) cs"

text \<open>
  The history of a call sequence, as the specification speaks of it: the token pairs,
  the verifiers and the registrations that were saved, oldest first.
\<close>

fun saved_tokens :: "call list \<Rightarrow> Tokens list" where
  "saved_tokens [] = []"
| "saved_tokens (SaveTokens t # cs) = t # saved_tokens cs"
| "saved_tokens (_ # cs) = saved_tokens cs"

fun saved_verifiers :: "call list \<Rightarrow> string list" where
  "saved_verifiers [] = []"
| "saved_verifiers (SaveCodeVerifier v # cs) = v # saved_verifiers cs"
| "saved_verifiers (_ # cs) = saved_verifiers cs"

definition last_saved :: "'a list \<Rightarrow> 'a option" where
  "last_saved xs = (if xs = [] then None else Some (last xs))"

section \<open>Strings\<close>

text \<open>
  The string methods the handlers use.  \<open>trim\<close> removes white space and line
  terminators from both ends; of those, a \<open>char\<close> can hold TAB, LF, VT, FF, CR,
  SPACE and NO-BREAK SPACE.
\<close>

definition startsWith :: "string \<Rightarrow> string \<Rightarrow> bool" where
  "startsWith s p = (take (length p) s = p)"

definition substring :: "string \<Rightarrow> nat \<Rightarrow> string" where
  "substring s n = drop n s"

definition isWhiteSpace :: "char \<Rightarrow> bool" where
  "isWhiteSpace c =
     (c = CHR 0x09 \<or> c = CHR 0x0A \<or> c = CHR 0x0B \<or> c = CHR 0x0C \<or> c = CHR 0x0D \<or>
      c = CHR 0x20 \<or> c = CHR 0xA0)"

definition trim :: "string \<Rightarrow> string" where
  "trim s = rev (dropWhile isWhiteSpace (rev (dropWhile isWhiteSpace s)))"

text \<open>
  What \<open>toString()\<close> of a \<open>URL\<close> object yields begins with the scheme and has its
  spaces stripped or percent-encoded by the URL parser: it neither begins nor ends with
  white space.
\<close>

definition url_string :: "string \<Rightarrow> bool" where
  "url_string u = (u = [] \<or> (\<not> isWhiteSpace (hd u) \<and> \<not> isWhiteSpace (last u)))"

section \<open>The HTTP layer\<close>

datatype json =
    JString string
  | JBool bool
  | JArray "json list"
  | JObject "(string \<times> json) list"

datatype body = Json json | Html string

record response =
  status :: nat
  content :: body

text \<open>\<open>c.json(v)\<close> and \<open>c.html(s)\<close> answer with status 200 unless one is given.\<close>

definition c_json :: "json \<Rightarrow> response" where
  "c_json v = \<lparr>status = 200, content = Json v\<rparr>"

definition c_json_status :: "json \<Rightarrow> nat \<Rightarrow> response" where
  "c_json_status v st = \<lparr>status = st, content = Json v\<rparr>"

definition c_html :: "string \<Rightarrow> response" where
  "c_html s = \<lparr>status = 200, content = Html s\<rparr>"

text \<open>
  Of a request the handlers read the protocol and host of its URL and the query
  parameter \<open>code\<close>, which is absent or a string.
\<close>

record request =
  url_protocol :: string
  url_host :: string
  query_code :: "string option"

subsection \<open>The SDK's client and transport\<close>

text \<open>
  \<open>Client\<close> and \<open>SSEClientTransport\<close> belong to the SDK.  Each of their four
  operations the handlers await is taken as a parameter: given the provider it was
  handed, it resolves or rejects, and leaves the provider in some state (it may call any
  of the provider's methods).  The module keeps the provider in a global variable; the
  model keeps beside it the list of SDK operations called so far.
\<close>

record sdk =
  connect :: "SimpleOAuthProvider \<Rightarrow> (js_error + unit) \<times> SimpleOAuthProvider"
  finishAuth :: "string \<Rightarrow> SimpleOAuthProvider \<Rightarrow> (js_error + unit) \<times> SimpleOAuthProvider"
  listTools :: "SimpleOAuthProvider \<Rightarrow> (js_error + json list) \<times> SimpleOAuthProvider"
  close :: "SimpleOAuthProvider \<Rightarrow> (js_error + unit) \<times> SimpleOAuthProvider"

datatype sdk_call = Connect | FinishAuth string | ListTools | Close

record module_state =
  oauthProvider :: "SimpleOAuthProvider option"
  sdk_calls :: "sdk_call list"

definition base_url :: "request \<Rightarrow> string" where
  "base_url req = url_protocol req @ ''//'' @ url_host req"

definition ensure_provider :: "request \<Rightarrow> module_state \<Rightarrow> module_state" where
  "ensure_provider req g =
     (if oauthProvider g = None
      then g\<lparr>oauthProvider := Some (new_SimpleOAuthProvider (base_url req))\<rparr>
      else g)"

text \<open>One awaited SDK operation on the global provider: the call is recorded.\<close>

definition await_sdk ::
  "sdk_call \<Rightarrow> (SimpleOAuthProvider \<Rightarrow> (js_error + 'a) \<times> SimpleOAuthProvider) \<Rightarrow>
     module_state \<Rightarrow> (js_error + 'a) \<times> module_state" where
  "await_sdk c f g =
     (case f (the (oauthProvider g)) of
        (r, p) \<Rightarrow> (r, g\<lparr>oauthProvider := Some p, sdk_calls := sdk_calls g @ [c]\<rparr>))"

text \<open>
  \<open>createMcpClient\<close>: the provider is constructed on first use; an error of
  \<open>client.connect\<close> is logged and thrown again as it is.
\<close>

definition createMcpClient ::
  "sdk \<Rightarrow> request \<Rightarrow> module_state \<Rightarrow> (js_error + unit) \<times> module_state" where
  "createMcpClient s req g = await_sdk Connect (connect s) (ensure_provider req g)"

subsection \<open>\<open>POST /api/connect\<close>\<close>

definition api_connect_try ::
  "sdk \<Rightarrow> request \<Rightarrow> module_state \<Rightarrow> (js_error + json list) \<times> module_state" where
  "api_connect_try s req g =
     (case createMcpClient s req g of
        (Inl e, g1) \<Rightarrow> (Inl e, g1)
      | (Inr _, g1) \<Rightarrow>
          (case await_sdk ListTools (listTools s) g1 of
             (Inl e, g2) \<Rightarrow> (Inl e, g2)
           | (Inr ts, g2) \<Rightarrow>
               (case await_sdk Close (close s) g2 of
                  (Inl e, g3) \<Rightarrow> (Inl e, g3)
                | (Inr _, g3) \<Rightarrow> (Inr ts, g3))))"

definition api_connect_catch :: "js_error \<Rightarrow> response" where
  "api_connect_catch e =
     (case e of
        Error m \<Rightarrow>
          if startsWith m ''Redirect to:''
          then c_json (JObject
                 [(''redirect'', JString (trim (substring m (length ''Redirect to:''))))])
          else c_json_status (JObject [(''error'', JString m)]) 500
      | NonError \<Rightarrow> c_json_status (JObject [(''error'', JString ''Unknown error'')]) 500)"

definition api_connect :: "sdk \<Rightarrow> request \<Rightarrow> module_state \<Rightarrow> response \<times> module_state" where
  "api_connect s req g =
     (case api_connect_try s req g of
        (Inr ts, g') \<Rightarrow>
          (c_json (JObject [(''success'', JBool True), (''tools'', JArray ts)]), g')
      | (Inl e, g') \<Rightarrow> (api_connect_catch e, g'))"

subsection \<open>The pages of \<open>GET /oauth/callback\<close>\<close>

text \<open>
  The \<open>html\<close> template tag of the web framework escapes the five characters
  \<open>&\<close>, \<open><\<close>, \<open>>\<close>, the double and the single quote in a string it
  interpolates.  A template is given line by line, each line after its line break.
\<close>

definition escape_char :: "char \<Rightarrow> string" where
  "escape_char c =
     (if c = CHR ''&'' then ''&amp;''
      else if c = CHR ''<'' then ''&lt;''
      else if c = CHR ''>'' then ''&gt;''
      else if c = CHR 0x22 then ''&quot;''
      else if c = CHR 0x27 then ''&#39;''
      else [c])"

definition escapeHtml :: "string \<Rightarrow> string" where
  "escapeHtml s = concat (map escape_char s)"

definition template_lines :: "string list \<Rightarrow> string" where
  "template_lines ls = concat (map (\<lambda>l. CHR 0x0A # l) ls)"

definition no_code_page :: string where
  "no_code_page = template_lines
     [''      <html>'',
      ''        <body>'',
      ''          <h1>Authentication Error</h1>'',
      ''          <p>No authorization code provided.</p>'',
      ''        </body>'',
      ''      </html>'',
      ''    '']"

definition success_page :: string where
  "success_page = template_lines
     [''      <html>'',
      ''        <body>'',
      ''          <h1>Authentication Successful</h1>'',
      ''          <p>You have successfully authenticated with the Sentry MCP server.</p>'',
      ''          <p><a href='' @ [CHR 0x22] @ ''/'' @ [CHR 0x22] @ ''>Return to the main page</a></p>'',
      ''          <script>'',
      ''            setTimeout(() => {'',
      ''              window.location.href = '' @ [CHR 0x27] @ ''/'' @ [CHR 0x27] @ '';'',
      ''            }, 3000);'',
      ''          </script>'',
      ''        </body>'',
      ''      </html>'',
      ''    '']"

definition failure_page :: "string \<Rightarrow> string" where
  "failure_page msg = template_lines
     [''      <html>'',
      ''        <body>'',
      ''          <h1>Authentication Error</h1>'',
      ''          <p>Failed to complete authentication: '' @ escapeHtml msg @ ''</p>'',
      ''          <p><a href='' @ [CHR 0x22] @ ''/'' @ [CHR 0x22] @ ''>Return to the main page</a></p>'',
      ''        </body>'',
      ''      </html>'',
      ''    '']"

subsection \<open>\<open>GET /oauth/callback\<close>\<close>

text \<open>
  The \<open>try\<close> block opens with a check that throws when the global provider is unset;
  a second check of the same condition, which would construct the provider, follows it.
  Then the transport finishes the authorization with the code and the client connects.
\<close>

definition callback_check :: "module_state \<Rightarrow> js_error + unit" where
  "callback_check g =
     (if oauthProvider g = None then Inl (Error ''OAuth provider not initialized'')
      else Inr ())"

definition oauth_callback_try ::
  "sdk \<Rightarrow> request \<Rightarrow> string \<Rightarrow> module_state \<Rightarrow> (js_error + unit) \<times> module_state" where
  "oauth_callback_try s req code g =
     (case callback_check g of
        Inl e \<Rightarrow> (Inl e, g)
      | Inr _ \<Rightarrow>
          (case await_sdk (FinishAuth code) (finishAuth s code) (ensure_provider req g) of
             (Inl e, g1) \<Rightarrow> (Inl e, g1)
           | (Inr _, g1) \<Rightarrow> await_sdk Connect (connect s) g1))"

definition error_text :: "js_error \<Rightarrow> string" where
  "error_text e = (case e of Error m \<Rightarrow> m | NonError \<Rightarrow> ''Unknown error'')"

definition oauth_callback :: "sdk \<Rightarrow> request \<Rightarrow> module_state \<Rightarrow> response \<times> module_state" where
  "oauth_callback s req g =
     (if falsy (query_code req) then (c_html no_code_page, g)
      else
        (case oauth_callback_try s req (the (query_code req)) g of
           (Inr _, g') \<Rightarrow> (c_html success_page, g')
         | (Inl e, g') \<Rightarrow> (c_html (failure_page (error_text e)), g')))"

section \<open>Concrete runs\<close>

text \<open>
  Requests, SDK behaviours and module states on which the handlers are evaluated: a
  server that demands authorization (the transport saves a verifier and asks the
  provider to redirect, whose exception passes through), a server that accepts the
  exchange and the connection, and one whose tool listing fails.
\<close>

definition connect_request :: request where
  "connect_request =
     \<lparr>url_protocol = ''https:'', url_host = ''client.example'', query_code = None\<rparr>"

definition callback_request :: request where
  "callback_request =
     \<lparr>url_protocol = ''https:'', url_host = ''client.example'', query_code = Some ''abc123''\<rparr>"

definition fresh_module :: module_state where
  "fresh_module = \<lparr>oauthProvider = None, sdk_calls = []\<rparr>"

definition authorize_url :: string where
  "authorize_url = ''https://mcp.sentry.dev/oauth/authorize?client_id=c1''"

definition issued_tokens :: Tokens where
  "issued_tokens =
     \<lparr>access_token = ''at1'', token_type = ''Bearer'', expires_in = Some 3600,
      refresh_token = None, scope = None\<rparr>"

definition exchange :: "string \<Rightarrow> SimpleOAuthProvider \<Rightarrow> (js_error + unit) \<times> SimpleOAuthProvider" where
  "exchange code p =
     (case codeVerifier p of
        (Inl e, p') \<Rightarrow> (Inl e, p')
      | (Inr v, p') \<Rightarrow> (Inr (), snd (saveTokens p' issued_tokens)))"

definition sdk_unauthorized :: sdk where
  "sdk_unauthorized =
     \<lparr>connect = (\<lambda>p. redirectToAuthorization (snd (saveCodeVerifier p ''v1'')) authorize_url),
      finishAuth = exchange,
      listTools = (\<lambda>p. (Inr [], p)),
      close = (\<lambda>p. (Inr (), p))\<rparr>"

definition sdk_authorized :: sdk where
  "sdk_authorized =
     \<lparr>connect = (\<lambda>p. (Inr (), p)),
      finishAuth = exchange,
      listTools = (\<lambda>p. (Inr [JObject [(''name'', JString ''list_issues'')]], p)),
      close = (\<lambda>p. (Inr (), p))\<rparr>"

definition sdk_listing_fails :: sdk where
  "sdk_listing_fails =
     \<lparr>connect = (\<lambda>p. (Inr (), p)),
      finishAuth = exchange,
      listTools = (\<lambda>p. (Inl (Error ''Redirect to: maintenance page''), p)),
      close = (\<lambda>p. (Inr (), p))\<rparr>"

definition awaiting_module :: module_state where
  "awaiting_module = snd (api_connect sdk_unauthorized connect_request fresh_module)"

section \<open>The provider's stores\<close>

text \<open>
  After any sequence of calls, a store holds what was saved last, or what it held before
  when the sequence saves nothing.  Both lemmas go by induction on the sequence, for an
  arbitrary provider.
\<close>

lemmas method_defs =
  clientInformation_def saveClientInformation_def tokens_def saveTokens_def
  redirectToAuthorization_def saveCodeVerifier_def codeVerifier_def

lemma oauthTokens_run_calls:
  "oauthTokens (run_calls p cs) =
     (case last_saved (saved_tokens cs) of None \<Rightarrow> oauthTokens p | Some t \<Rightarrow> Some t)"
proof (induction cs arbitrary: p)
  case Nil
  show ?case by (simp add: last_saved_def)
next
  case (Cons c cs)
  show ?case
    by (cases c) (simp_all add: Cons.IH last_saved_def method_defs)
qed

lemma verifier_run_calls:
  "verifier (run_calls p cs) =
     (case last_saved (saved_verifiers cs) of None \<Rightarrow> verifier p | Some v \<Rightarrow> Some v)"
proof (induction cs arbitrary: p)
  case Nil
  show ?case by (simp add: last_saved_def)
next
  case (Cons c cs)
  show ?case
    by (cases c) (simp_all add: Cons.IH last_saved_def method_defs)
qed

text \<open>
  Claim C1.  For every URL \<open>u\<close> and every provider, \<open>redirectToAuthorization\<close> does
  not return: it throws an error, recognisable by the prefix \<open>Redirect to:\<close> of its
  message, whose message after \<open>Redirect to: \<close> is exactly \<open>u\<close>; the provider is left
  as it was, and nothing else happens (no redirect is performed).
\<close>

theorem redirectToAuthorization_always_throws:
  "\<exists>m. redirectToAuthorization p u = (Inl (Error m), p) \<and>
       startsWith m ''Redirect to:'' \<and> substring m (length ''Redirect to: '') = u"
  by (simp add: redirectToAuthorization_def startsWith_def substring_def)

text \<open>
  Claim C5.  After every sequence of calls on a newly constructed provider, \<open>tokens()\<close>
  returns the token pair saved last, and an absent result when none was saved.
\<close>

theorem tokens_last_write_wins:
  "fst (tokens (run_calls (new_SimpleOAuthProvider b) cs)) = last_saved (saved_tokens cs)"
  by (simp add: tokens_def oauthTokens_run_calls new_SimpleOAuthProvider_def split: option.split)

text \<open>
  Claim C7.  Saving a registration \<open>r\<close> and then reading the registration returns
  \<open>r\<close> itself, whatever the provider held; a registration saved before leaves no trace.
\<close>

theorem clientInformation_roundtrip:
  "fst (clientInformation (snd (saveClientInformation p r))) = Some r \<and>
   snd (saveClientInformation (snd (saveClientInformation p r0)) r) =
     snd (saveClientInformation p r)"
  by (simp add: clientInformation_def saveClientInformation_def)

text \<open>
  Claim C4, as the code has it.  After every sequence of calls on a newly constructed
  provider, \<open>codeVerifier()\<close> throws \<open>No code verifier found\<close> exactly when no
  verifier was saved or the verifier saved last is the empty string; otherwise it returns
  the verifier saved last.
\<close>

theorem codeVerifier_after_calls:
  "fst (codeVerifier (run_calls (new_SimpleOAuthProvider b) cs)) =
     (case last_saved (saved_verifiers cs) of
        None \<Rightarrow> Inl (Error ''No code verifier found'')
      | Some v \<Rightarrow> if v = [] then Inl (Error ''No code verifier found'') else Inr v)"
  by (simp add: codeVerifier_def verifier_run_calls new_SimpleOAuthProvider_def falsy_def
        split: option.split)

text \<open>
  The empty verifier: \<open>saveCodeVerifier('')\<close> was called, and \<open>codeVerifier()\<close> throws
  all the same.
\<close>

theorem codeVerifier_empty_counterexample:
  "fst (codeVerifier (run_calls (new_SimpleOAuthProvider ''https://client.example'')
          [SaveCodeVerifier []])) = Inl (Error ''No code verifier found'') \<and>
   saved_verifiers [SaveCodeVerifier []] \<noteq> []"
  by (simp add: codeVerifier_def saveCodeVerifier_def new_SimpleOAuthProvider_def falsy_def)

section \<open>\<open>POST /api/connect\<close>\<close>

lemma trim_after_space:
  assumes "url_string u"
  shows "trim (CHR 0x20 # u) = u"
proof (cases "u = []")
  case True
  then show ?thesis by (simp add: trim_def isWhiteSpace_def)
next
  case False
  with assms have h: "\<not> isWhiteSpace (hd u)" and l: "\<not> isWhiteSpace (last u)"
    by (simp_all add: url_string_def)
  from False h have "dropWhile isWhiteSpace u = u"
    by (cases u) simp_all
  moreover from False l have "dropWhile isWhiteSpace (rev u) = rev u"
    by (cases "rev u") (simp_all add: hd_rev [symmetric])
  ultimately show ?thesis
    by (simp add: trim_def isWhiteSpace_def)
qed

lemma api_connect_failure:
  "fst (api_connect_try s req g) = Inl e \<Longrightarrow> fst (api_connect s req g) = api_connect_catch e"
  by (cases "api_connect_try s req g") (simp add: api_connect_def)

lemma api_connect_success:
  "fst (api_connect_try s req g) = Inr ts \<Longrightarrow>
   fst (api_connect s req g) = c_json (JObject [(''success'', JBool True), (''tools'', JArray ts)])"
  by (cases "api_connect_try s req g") (simp add: api_connect_def)

lemma catch_redirect_signal:
  "url_string u \<Longrightarrow>
   api_connect_catch (Error (''Redirect to: '' @ u)) = c_json (JObject [(''redirect'', JString u)])"
  using trim_after_space [of u]
  by (simp add: api_connect_catch_def startsWith_def substring_def)

lemma unauthorized_try:
  "fst (api_connect_try sdk_unauthorized connect_request fresh_module) =
     Inl (Error (''Redirect to: '' @ authorize_url))"
  by (simp add: api_connect_try_def createMcpClient_def await_sdk_def ensure_provider_def
        fresh_module_def sdk_unauthorized_def redirectToAuthorization_def)

lemma provider_signal:
  "fst (redirectToAuthorization p authorize_url) = Inl (Error (''Redirect to: '' @ authorize_url))"
  by (simp add: redirectToAuthorization_def)

lemma url_string_authorize_url: "url_string authorize_url"
  by (simp add: url_string_def authorize_url_def isWhiteSpace_def)

lemma listing_fails_try:
  "fst (api_connect_try sdk_listing_fails connect_request fresh_module) =
     Inl (Error ''Redirect to: maintenance page'')"
  by (simp add: api_connect_try_def createMcpClient_def await_sdk_def ensure_provider_def
        fresh_module_def sdk_listing_fails_def)

lemma maintenance_startsWith: "startsWith ''Redirect to: maintenance page'' ''Redirect to:''"
  by (simp add: startsWith_def)

text \<open>
  Claim C2.  When \<open>redirectToAuthorization(u)\<close> throws its error \<open>e\<close> for a URL
  \<open>u\<close>, and \<open>e\<close> is what the \<open>try\<close> block of the handler fails with, the handler
  answers with status 200 and the JSON object whose only field \<open>redirect\<close> is \<open>u\<close>.
\<close>

theorem redirect_signal_roundtrip:
  assumes "url_string u"
    and "fst (redirectToAuthorization p u) = Inl e"
    and "fst (api_connect_try s req g) = Inl e"
  shows "fst (api_connect s req g) =
           \<lparr>status = 200, content = Json (JObject [(''redirect'', JString u)])\<rparr>"
proof -
  from assms(2) have "e = Error (''Redirect to: '' @ u)"
    by (simp add: redirectToAuthorization_def)
  with assms(3) have "fst (api_connect_try s req g) = Inl (Error (''Redirect to: '' @ u))"
    by simp
  then have "fst (api_connect s req g) = api_connect_catch (Error (''Redirect to: '' @ u))"
    by (rule api_connect_failure)
  also have "\<dots> = c_json (JObject [(''redirect'', JString u)])"
    using assms(1) by (rule catch_redirect_signal)
  finally show ?thesis
    by (simp add: c_json_def)
qed

text \<open>
  A first request to a server that demands authorization: the transport asks the
  provider to redirect, and the handler answers with that very URL.
\<close>

theorem redirect_signal_roundtrip_witness:
  "url_string authorize_url \<and>
   fst (redirectToAuthorization (new_SimpleOAuthProvider ''https://client.example'') authorize_url) =
     Inl (Error (''Redirect to: '' @ authorize_url)) \<and>
   fst (api_connect_try sdk_unauthorized connect_request fresh_module) =
     Inl (Error (''Redirect to: '' @ authorize_url)) \<and>
   fst (api_connect sdk_unauthorized connect_request fresh_module) =
     \<lparr>status = 200, content = Json (JObject [(''redirect'', JString authorize_url)])\<rparr>"
  using redirect_signal_roundtrip [OF url_string_authorize_url provider_signal unauthorized_try]
    url_string_authorize_url provider_signal unauthorized_try
  by simp

text \<open>
  Claim C3.  The response of the handler has one of three shapes: when the \<open>try\<close>
  block succeeds, status 200 with \<open>success: true\<close> and the tools; when it fails with an
  error whose message starts with \<open>Redirect to:\<close>, status 200 with the field
  \<open>redirect\<close>; on any other failure, status 500 with the field \<open>error\<close>.
\<close>

theorem api_connect_three_shapes:
  "(\<exists>ts. fst (api_connect_try s req g) = Inr ts \<and>
      fst (api_connect s req g) =
        \<lparr>status = 200,
         content = Json (JObject [(''success'', JBool True), (''tools'', JArray ts)])\<rparr>) \<or>
   (\<exists>m. fst (api_connect_try s req g) = Inl (Error m) \<and> startsWith m ''Redirect to:'' \<and>
      fst (api_connect s req g) =
        \<lparr>status = 200,
         content = Json (JObject
           [(''redirect'', JString (trim (substring m (length ''Redirect to:''))))])\<rparr>) \<or>
   (\<exists>e. fst (api_connect_try s req g) = Inl e \<and>
      (e = NonError \<or> (\<exists>m. e = Error m \<and> \<not> startsWith m ''Redirect to:'')) \<and>
      fst (api_connect s req g) =
        \<lparr>status = 500, content = Json (JObject [(''error'', JString (error_text e))])\<rparr>)"
proof (cases "fst (api_connect_try s req g)")
  case (Inr ts)
  then show ?thesis
    by (simp add: api_connect_success c_json_def)
next
  case (Inl e)
  then have r: "fst (api_connect s req g) = api_connect_catch e"
    by (rule api_connect_failure)
  show ?thesis
  proof (cases e)
    case NonError
    with Inl r show ?thesis
      by (simp add: api_connect_catch_def c_json_status_def error_text_def)
  next
    case (Error m)
    with Inl r show ?thesis
      by (cases "startsWith m ''Redirect to:''")
         (simp_all add: api_connect_catch_def c_json_status_def c_json_def error_text_def)
  qed
qed

text \<open>
  Claim C9.  Whatever made the \<open>try\<close> block fail, an error whose message starts with
  \<open>Redirect to:\<close> is answered with status 200 and the field \<open>redirect\<close> holding the
  rest of the message, trimmed: the prefix of the message alone decides.
\<close>

theorem prefix_decides_redirect:
  assumes "fst (api_connect_try s req g) = Inl (Error m)"
    and "startsWith m ''Redirect to:''"
  shows "fst (api_connect s req g) =
           \<lparr>status = 200,
            content = Json (JObject
              [(''redirect'', JString (trim (substring m (length ''Redirect to:''))))])\<rparr>"
  using api_connect_failure [OF assms(1)] assms(2)
  by (simp add: api_connect_catch_def c_json_def)

text \<open>
  An error of the tool listing, not of the provider, whose message happens to begin
  with the prefix: it is answered as a redirect.
\<close>

theorem prefix_decides_redirect_witness:
  "fst (api_connect_try sdk_listing_fails connect_request fresh_module) =
     Inl (Error ''Redirect to: maintenance page'') \<and>
   startsWith ''Redirect to: maintenance page'' ''Redirect to:'' \<and>
   fst (api_connect sdk_listing_fails connect_request fresh_module) =
     \<lparr>status = 200, content = Json (JObject [(''redirect'', JString ''maintenance page'')])\<rparr>"
  using prefix_decides_redirect [OF listing_fails_try maintenance_startsWith]
    listing_fails_try maintenance_startsWith
  by (simp add: trim_def substring_def isWhiteSpace_def)

section \<open>\<open>GET /oauth/callback\<close>\<close>

lemma no_code_text: "sublist ''No authorization code provided.'' no_code_page"
  by (simp add: no_code_page_def template_lines_def sublist_code(3))

lemma failure_page_split:
  "failure_page msg =
     template_lines [''      <html>'', ''        <body>'',
       ''          <h1>Authentication Error</h1>''] @
     (CHR 0x0A # ''          <p>'') @
     (''Failed to complete authentication: '' @ escapeHtml msg) @
     (''</p>'' @
      template_lines
        [''          <p><a href='' @ [CHR 0x22] @ ''/'' @ [CHR 0x22] @ ''>Return to the main page</a></p>'',
         ''        </body>'', ''      </html>'', ''    ''])"
  by (simp add: failure_page_def template_lines_def)

lemma failure_page_text:
  "sublist (''Failed to complete authentication: '' @ escapeHtml msg) (failure_page msg)"
  unfolding failure_page_split
  by (intro sublist_append_leftI sublist_append_rightI sublist_appendI
        sublist_order.order_trans [OF _ sublist_append_leftI])

lemma escape_not_initialized:
  "escapeHtml ''OAuth provider not initialized'' = ''OAuth provider not initialized''"
  by (simp add: escapeHtml_def escape_char_def)

lemma awaiting_module_eq:
  "awaiting_module =
     \<lparr>oauthProvider = Some \<lparr>clientInfo = None, oauthTokens = None, verifier = Some ''v1'',
        baseUrl = ''https://client.example''\<rparr>,
      sdk_calls = [Connect]\<rparr>"
  by (simp add: awaiting_module_def api_connect_def api_connect_try_def createMcpClient_def
        await_sdk_def ensure_provider_def fresh_module_def sdk_unauthorized_def
        redirectToAuthorization_def saveCodeVerifier_def new_SimpleOAuthProvider_def
        base_url_def connect_request_def)

text \<open>
  Claim C8.  A request without the query parameter \<open>code\<close> is answered with the page
  that contains the text \<open>No authorization code provided.\<close>; the provider is untouched
  and no operation of the SDK is called.
\<close>

theorem callback_without_code:
  assumes "query_code req = None"
  shows "fst (oauth_callback s req g) = \<lparr>status = 200, content = Html no_code_page\<rparr> \<and>
         sublist ''No authorization code provided.'' no_code_page \<and>
         snd (oauth_callback s req g) = g"
  using assms no_code_text
  by (simp add: oauth_callback_def falsy_def c_html_def)

text \<open>
  A callback without a code, while an authorization is awaited and the server would
  accept the exchange.
\<close>

theorem callback_without_code_witness:
  "query_code connect_request = None \<and>
   fst (oauth_callback sdk_authorized connect_request awaiting_module) =
     \<lparr>status = 200, content = Html no_code_page\<rparr> \<and>
   snd (oauth_callback sdk_authorized connect_request awaiting_module) = awaiting_module"
  using callback_without_code [of connect_request sdk_authorized awaiting_module]
  by (simp add: connect_request_def)

text \<open>
  Claim C10.  A request with a code, while the global provider has never been
  constructed, is answered with the page that contains \<open>Failed to complete
  authentication: OAuth provider not initialized\<close>; the module state is as before, so
  no exchange was attempted and no provider constructed.  The second check never
  constructs a provider: in every state \<open>g'\<close> that passes the first check, it changes
  nothing.
\<close>

theorem callback_before_connect:
  assumes "\<not> falsy (query_code req)"
    and "oauthProvider g = None"
  shows "oauth_callback s req g =
           (\<lparr>status = 200, content = Html (failure_page ''OAuth provider not initialized'')\<rparr>, g) \<and>
         sublist ''Failed to complete authentication: OAuth provider not initialized''
           (failure_page ''OAuth provider not initialized'') \<and>
         (callback_check g' = Inr () \<longrightarrow> ensure_provider req g' = g')"
proof -
  have "sublist (''Failed to complete authentication: '' @ escapeHtml ''OAuth provider not initialized'')
          (failure_page ''OAuth provider not initialized'')"
    by (rule failure_page_text)
  then have t: "sublist ''Failed to complete authentication: OAuth provider not initialized''
          (failure_page ''OAuth provider not initialized'')"
    unfolding escape_not_initialized by simp
  have d: "callback_check g' = Inr () \<longrightarrow> ensure_provider req g' = g'"
    by (simp add: callback_check_def ensure_provider_def)
  from assms have "oauth_callback s req g =
      (\<lparr>status = 200, content = Html (failure_page ''OAuth provider not initialized'')\<rparr>, g)"
    by (simp add: oauth_callback_def oauth_callback_try_def callback_check_def c_html_def
          error_text_def)
  with t d show ?thesis by blast
qed

text \<open>
  The callback with code \<open>abc123\<close> on the module as it starts; and the module that
  awaits an authorization passes the first check and is left alone by the second.
\<close>

theorem callback_before_connect_witness:
  "\<not> falsy (query_code callback_request) \<and> oauthProvider fresh_module = None \<and>
   oauth_callback sdk_authorized callback_request fresh_module =
     (\<lparr>status = 200, content = Html (failure_page ''OAuth provider not initialized'')\<rparr>,
      fresh_module) \<and>
   callback_check awaiting_module = Inr () \<and>
   ensure_provider callback_request awaiting_module = awaiting_module"
proof -
  have a: "\<not> falsy (query_code callback_request)"
    by (simp add: callback_request_def falsy_def)
  have b: "oauthProvider fresh_module = None"
    by (simp add: fresh_module_def)
  have c: "callback_check awaiting_module = Inr ()"
    by (simp add: awaiting_module_eq callback_check_def)
  from callback_before_connect [OF a b, of sdk_authorized awaiting_module] a b c
  show ?thesis by simp
qed

text \<open>
  The operations the two handlers call.  The callback handler never closes the client;
  the handler of \<open>POST /api/connect\<close> closes it last when it succeeds.
\<close>

lemma callback_never_closes:
  "\<exists>cs. sdk_calls (snd (oauth_callback s req g)) = sdk_calls g @ cs \<and> Close \<notin> set cs"
  by (auto simp add: oauth_callback_def oauth_callback_try_def await_sdk_def ensure_provider_def
        callback_check_def split: prod.split sum.split)

lemma api_connect_success_closes:
  "fst (api_connect_try s req g) = Inr ts \<Longrightarrow>
   \<exists>cs. sdk_calls (snd (api_connect s req g)) = sdk_calls g @ cs @ [Close]"
  by (auto simp add: api_connect_def api_connect_try_def createMcpClient_def await_sdk_def
        ensure_provider_def split: prod.splits sum.splits if_splits)

text \<open>
  Claim C6.  The callback with code \<open>abc123\<close>, while an authorization is awaited and
  the server accepts the exchange and the connection: the tokens are saved and the
  success page is returned after the two operations \<open>finishAuth\<close> and \<open>connect\<close>;
  the client is not closed.
\<close>

theorem callback_success_leaves_connection_open:
  "fst (oauth_callback sdk_authorized callback_request awaiting_module) =
     \<lparr>status = 200, content = Html success_page\<rparr> \<and>
   sdk_calls (snd (oauth_callback sdk_authorized callback_request awaiting_module)) =
     sdk_calls awaiting_module @ [FinishAuth ''abc123'', Connect] \<and>
   oauthTokens (the (oauthProvider
     (snd (oauth_callback sdk_authorized callback_request awaiting_module)))) = Some issued_tokens"
  by (simp add: awaiting_module_eq oauth_callback_def oauth_callback_try_def await_sdk_def
        ensure_provider_def callback_check_def callback_request_def falsy_def sdk_authorized_def
        exchange_def codeVerifier_def saveTokens_def c_html_def)

end
